theory Spec2Isabelle
  imports Main
begin

section \<open>The group actor of federa (\<^verbatim>\<open>src/federa/group.py\<close>)\<close>

subsection \<open>Python values\<close>

text \<open>
  Activities are decoded JSON documents, handled in the source as Python dictionaries.
  \<open>PNone\<close> is Python's \<^verbatim>\<open>None\<close> (also what a JSON \<^verbatim>\<open>null\<close> decodes to), \<open>PDict\<close> a
  dictionary with string keys, kept as an association list whose first binding of a key
  counts. \<open>PTuple\<close> is needed for one value only, the tuple built in \<^verbatim>\<open>create\<close>.
  A number is an integer; numbers with a fraction are left out.
  A Python string is a list of characters; one \<^typ>\<open>char\<close> stands for one Python
  character, so the alphabet is the code points below 256 and \<^const>\<open>length\<close> is
  Python's \<^verbatim>\<open>len\<close>.
\<close>

datatype pyval =
    PNone
  | PBool bool
  | PInt int
  | PStr string
  | PList "pyval list"
  | PTuple "pyval list"
  | PDict "(string \<times> pyval) list"

type_synonym pydict = "(string \<times> pyval) list"

text \<open>
  What a handler can end with besides a value: \<^verbatim>\<open>abort(code, message)\<close> of Flask, or
  an exception of the interpreter that no handler catches. \<open>IllTypedField\<close> marks the
  one situation the source does not decide: a value that is not a string reaching the
  storage layer where a row's field or key is a string (see \<open>follow\<close>).
\<close>

datatype error =
    Abort nat string
  | AttributeError
  | TypeError
  | IllTypedField

text \<open>\<^verbatim>\<open>d.get(k)\<close> and \<^verbatim>\<open>d.get(k, default)\<close> on a dictionary.\<close>

definition dict_get_default :: "pydict \<Rightarrow> string \<Rightarrow> pyval \<Rightarrow> pyval" where
  "dict_get_default d k dflt = (case map_of d k of None \<Rightarrow> dflt | Some v \<Rightarrow> v)"

definition dict_get :: "pydict \<Rightarrow> string \<Rightarrow> pyval" where
  "dict_get d k = dict_get_default d k PNone"

text \<open>
  \<^verbatim>\<open>str.lower()\<close> on the characters below 256: the ASCII capitals and the Latin-1
  capitals \<^verbatim>\<open>0xC0..0xDE\<close> (without the multiplication sign \<^verbatim>\<open>0xD7\<close>) move up by 32.
\<close>

definition lower_char :: "char \<Rightarrow> char" where
  "lower_char c =
     (let n = (of_char c :: nat)
      in if (65 \<le> n \<and> n \<le> 90) \<or> (192 \<le> n \<and> n \<le> 222 \<and> n \<noteq> 215)
         then char_of (n + 32) else c)"

definition str_lower :: "string \<Rightarrow> string" where
  "str_lower s = map lower_char s"

text \<open>
  \<^verbatim>\<open>x.lower()\<close> on an arbitrary value: only strings have the method, every other value
  of a decoded document raises \<^verbatim>\<open>AttributeError\<close>.
\<close>

definition py_lower :: "pyval \<Rightarrow> error + string" where
  "py_lower v = (case v of PStr s \<Rightarrow> Inr (str_lower s) | _ \<Rightarrow> Inl AttributeError)"

text \<open>
  Whether a value can be a member of a Python set: lists and dictionaries are unhashable,
  a tuple is hashable when its components are.
\<close>

fun hashable :: "pyval \<Rightarrow> bool" where
  "hashable (PList xs) = False"
| "hashable (PDict d) = False"
| "hashable (PTuple xs) = list_all hashable xs"
| "hashable v = True"

text \<open>
  \<^verbatim>\<open>actor not in members\<close> for a set of strings: hashing an unhashable value raises
  \<^verbatim>\<open>TypeError\<close>; a hashable value that is not a string equals no member.
\<close>

definition not_in_members :: "pyval \<Rightarrow> string set \<Rightarrow> error + bool" where
  "not_in_members actor members =
     (if \<not> hashable actor then Inl TypeError
      else Inr (case actor of PStr a \<Rightarrow> a \<notin> members | _ \<Rightarrow> True))"

text \<open>\<^verbatim>\<open>members.discard(actor)\<close>, reached only with a hashable actor.\<close>

definition discard :: "pyval \<Rightarrow> string set \<Rightarrow> string set" where
  "discard actor members = (case actor of PStr a \<Rightarrow> members - {a} | _ \<Rightarrow> members)"

text \<open>
  \<^verbatim>\<open>x == y\<close> on these values: \<^verbatim>\<open>None\<close> equals only itself, a boolean equals the
  integer 1 or 0 it stands for, lists and tuples are compared component by component (a
  list never equals a tuple), two dictionaries are equal when they have the same keys
  and equal values under each key, in any order. \<^verbatim>\<open>x != y\<close> is its negation.
\<close>

fun py_eq :: "pyval \<Rightarrow> pyval \<Rightarrow> bool" where
  "py_eq PNone PNone = True"
| "py_eq (PBool a) (PBool b) = (a = b)"
| "py_eq (PBool a) (PInt n) = (n = (if a then 1 else 0))"
| "py_eq (PInt n) (PBool a) = (n = (if a then 1 else 0))"
| "py_eq (PInt m) (PInt n) = (m = n)"
| "py_eq (PStr s) (PStr t) = (s = t)"
| "py_eq (PList xs) (PList ys) = list_all2 py_eq xs ys"
| "py_eq (PTuple xs) (PTuple ys) = list_all2 py_eq xs ys"
| "py_eq (PDict d) (PDict e) =
     (set (map fst d) = set (map fst e)
      \<and> list_all (\<lambda>(k, v). if map_of d k = Some v
                            then (case map_of e k of Some w \<Rightarrow> py_eq v w | None \<Rightarrow> False)
                            else True) d)"
| "py_eq _ _ = False"

subsection \<open>The tables\<close>

text \<open>
  Modelled from the spec: the row types \<^verbatim>\<open>Group\<close>, \<^verbatim>\<open>GroupMember\<close> and \<^verbatim>\<open>GroupActivity\<close>
  of \<^verbatim>\<open>federa.model\<close>, which is not among the sources. The fields are those the handlers
  read and write, with the types the specification's data model gives them; \<open>id\<close> is
  the primary key of each table.
\<close>

record Group =
  g_id :: string
  g_name :: string
  g_summary :: string

record GroupMember =
  gm_id :: string
  gm_follower_id :: string
  gm_group_id :: string

record GroupActivity =
  ga_id :: string
  ga_type :: string
  ga_group_id :: string
  ga_object :: string

text \<open>
  Everything a handler can change: the three tables, each a list of rows in the order a
  query enumerates them, the calls made to the two outbound collaborators
  (\<^verbatim>\<open>accept_object\<close>, \<^verbatim>\<open>announce_object\<close> of \<^verbatim>\<open>framework.actor_actions\<close>), each recorded with
  its arguments, and the lines printed.
\<close>

record world =
  group_tbl :: "Group list"
  member_tbl :: "GroupMember list"
  activity_tbl :: "GroupActivity list"
  accepts :: "(Group \<times> string \<times> pydict) list"
  announces :: "(Group \<times> string set \<times> pyval \<times> pyval) list"
  printed :: "string list"

text \<open>
  What the source takes from its surroundings: the two URL builders behind
  \<^verbatim>\<open>url_for(".actor", actor_id=..)\<close> and \<^verbatim>\<open>url_for(".announce_activity", announce_id=..)\<close>,
  and \<^verbatim>\<open>json.dumps\<close> / \<^verbatim>\<open>json.loads\<close>. They stay parameters; no property below depends
  on what they compute.
\<close>

record env =
  actor_url :: "string \<Rightarrow> string"
  announce_url :: "string \<Rightarrow> string"
  json_dumps :: "pyval \<Rightarrow> string"
  json_loads :: "string \<Rightarrow> error + pyval"

text \<open>
  \<^verbatim>\<open>db.engine.save(row)\<close> is called without a condition everywhere in the source: the
  row is written under its primary key, replacing whatever was stored there.
  \<^verbatim>\<open>db.engine.delete(row)\<close> removes what is stored under the row's primary key.
\<close>

definition save_group :: "Group \<Rightarrow> world \<Rightarrow> world" where
  "save_group g st = st\<lparr>group_tbl := filter (\<lambda>r. g_id r \<noteq> g_id g) (group_tbl st) @ [g]\<rparr>"

definition save_member :: "GroupMember \<Rightarrow> world \<Rightarrow> world" where
  "save_member m st = st\<lparr>member_tbl := filter (\<lambda>r. gm_id r \<noteq> gm_id m) (member_tbl st) @ [m]\<rparr>"

definition save_activity :: "GroupActivity \<Rightarrow> world \<Rightarrow> world" where
  "save_activity a st =
     st\<lparr>activity_tbl := filter (\<lambda>r. ga_id r \<noteq> ga_id a) (activity_tbl st) @ [a]\<rparr>"

definition delete_member :: "GroupMember \<Rightarrow> world \<Rightarrow> world" where
  "delete_member m st = st\<lparr>member_tbl := filter (\<lambda>r. gm_id r \<noteq> gm_id m) (member_tbl st)\<rparr>"

text \<open>The query on the index \<^verbatim>\<open>by_follower\<close>: key the follower, filter the group.\<close>

definition query_by_follower :: "world \<Rightarrow> string \<Rightarrow> string \<Rightarrow> GroupMember list" where
  "query_by_follower st follower gid =
     filter (\<lambda>m. gm_follower_id m = follower \<and> gm_group_id m = gid) (member_tbl st)"

text \<open>\<^verbatim>\<open>find_group\<close>: \<^verbatim>\<open>q.one()\<close> raises \<^verbatim>\<open>ConstraintViolation\<close> unless exactly one row matches.\<close>

definition find_group :: "world \<Rightarrow> string \<Rightarrow> Group option" where
  "find_group st group_id =
     (case filter (\<lambda>g. g_id g = group_id) (group_tbl st) of [g] \<Rightarrow> Some g | _ \<Rightarrow> None)"

text \<open>\<^verbatim>\<open>group_members\<close>: the follower of every row of the group, by the index \<^verbatim>\<open>by_group\<close>.\<close>

definition group_members :: "world \<Rightarrow> string \<Rightarrow> string list" where
  "group_members st group_id =
     map gm_follower_id (filter (\<lambda>m. gm_group_id m = group_id) (member_tbl st))"

text \<open>The two outbound collaborators: the call is recorded, nothing else is known of it.\<close>

definition accept_object :: "Group \<Rightarrow> string \<Rightarrow> pydict \<Rightarrow> world \<Rightarrow> world" where
  "accept_object grp follower activity st =
     st\<lparr>accepts := accepts st @ [(grp, follower, activity)]\<rparr>"

definition announce_object :: "Group \<Rightarrow> string set \<Rightarrow> pyval \<Rightarrow> pyval \<Rightarrow> world \<Rightarrow> world" where
  "announce_object grp members activity_id announce_uri st =
     st\<lparr>announces := announces st @ [(grp, members, activity_id, announce_uri)]\<rparr>"

subsection \<open>Serialising an announce\<close>

definition serialize_announce :: "env \<Rightarrow> GroupActivity \<Rightarrow> error + pyval" where
  "serialize_announce E announce =
     (case json_loads E (ga_object announce) of
        Inl e \<Rightarrow> Inl e
      | Inr obj \<Rightarrow>
          Inr (PDict [(''id'', PStr (announce_url E (ga_id announce))),
                      (''type'', PStr (ga_type announce)),
                      (''actor'', PStr (actor_url E (ga_group_id announce))),
                      (''object'', obj)]))"

subsection \<open>The handlers\<close>

type_synonym result = "(error + pyval) \<times> world"

definition py_done :: pyval where
  "py_done = PStr ''done''"

text \<open>
  \<^verbatim>\<open>follow\<close>. The identifier drawn by \<^verbatim>\<open>uuid4()\<close> is the parameter \<open>uuid\<close>. The decorator
  \<^verbatim>\<open>activity_actor_from_source\<close> (of \<^verbatim>\<open>framework.helpers\<close>, not among the sources) hands the
  handler an activity whose \<^verbatim>\<open>actor\<close> is the verified originator, a URI; what the storage
  layer would do with a follower that is not a string is not decided by the source, and the
  model stops there with \<open>IllTypedField\<close>. The source's parameter \<^verbatim>\<open>group\<close> is
  \<open>grp\<close> here.
\<close>

definition follow :: "env \<Rightarrow> string \<Rightarrow> Group \<Rightarrow> pydict \<Rightarrow> world \<Rightarrow> result" where
  "follow E uuid grp follow_activity st =
     (let follower = dict_get follow_activity ''actor'';
          target = dict_get follow_activity ''object''
      in if target \<noteq> PStr (actor_url E (g_id grp)) then (Inl (Abort 400 ''Wrong target''), st)
         else
           (case follower of
              PStr f \<Rightarrow>
                if length (query_by_follower st f (g_id grp)) > 0 then (Inr py_done, st)
                else
                  (let st1 = save_member
                         \<lparr>gm_id = uuid, gm_follower_id = f, gm_group_id = g_id grp\<rparr> st;
                       st2 = accept_object grp f follow_activity st1
                   in (Inr py_done, st2))
            | _ \<Rightarrow> (Inl IllTypedField, st)))"

text \<open>
  \<^verbatim>\<open>undo\<close>. \<^verbatim>\<open>action.get\<close> exists only when \<^verbatim>\<open>action\<close> is a dictionary, \<^verbatim>\<open>.lower()\<close> only on
  a string. The inner actor is compared with the outer one by \<^verbatim>\<open>!=\<close>, whatever the two
  values are. \<^verbatim>\<open>q.first()\<close> raises \<^verbatim>\<open>ConstraintViolation\<close> on an empty result, which the
  handler turns into \<^verbatim>\<open>"done"\<close>. The follower reaches the storage layer as the key of the
  query, where it is a string as in \<open>follow\<close>.
\<close>

definition undo :: "env \<Rightarrow> Group \<Rightarrow> pydict \<Rightarrow> world \<Rightarrow> result" where
  "undo E grp undo_activity st =
     (let follower = dict_get undo_activity ''actor'';
          action = dict_get_default undo_activity ''object'' (PDict [])
      in (case action of
            PDict a \<Rightarrow>
              (case py_lower (dict_get a ''type'') of
                 Inl e \<Rightarrow> (Inl e, st)
               | Inr t \<Rightarrow>
                   if t \<noteq> ''follow'' then (Inr py_done, st)
                   else if \<not> py_eq (dict_get a ''actor'') follower
                   then (Inl (Abort 400 ''Inconsistant follow activity''), st)
                   else if dict_get a ''object'' \<noteq> PStr (actor_url E (g_id grp))
                   then (Inl (Abort 400 ''Wrong target''), st)
                   else
                     (case follower of
                        PStr f \<Rightarrow>
                          (case query_by_follower st f (g_id grp) of
                             [] \<Rightarrow> (Inr py_done, st)
                           | membership # _ \<Rightarrow> (Inr py_done, delete_member membership st))
                      | _ \<Rightarrow> (Inl IllTypedField, st)))
          | _ \<Rightarrow> (Inl AttributeError, st)))"

text \<open>
  The object of a \<^verbatim>\<open>Create\<close>: a string is its own identifier, a dictionary gives its
  \<^verbatim>\<open>id\<close>, any other value has no \<^verbatim>\<open>.get\<close>.
\<close>

definition activity_object_id :: "pydict \<Rightarrow> error + pyval" where
  "activity_object_id create_activity =
     (let activity_details = dict_get create_activity ''object''
      in if activity_details = PNone then Inl (Abort 400 ''activity not detailed'')
         else case (case activity_details of
                      PStr s \<Rightarrow> Inr (PStr s)
                    | PDict d \<Rightarrow> Inr (dict_get d ''id'')
                    | _ \<Rightarrow> Inl AttributeError) of
           Inl e \<Rightarrow> Inl e
         | Inr activity_id \<Rightarrow>
             if activity_id = PNone then Inl (Abort 400 ''not external activity id'')
             else Inr activity_id)"

text \<open>
  \<^verbatim>\<open>create\<close>. \<open>uuid\<close> is \<^verbatim>\<open>str(uuid4())\<close>. The source binds \<^verbatim>\<open>announce_uri\<close> to
  \<^verbatim>\<open>(url_for(...),)\<close>, a tuple of one component, and passes that on.
\<close>

definition create :: "env \<Rightarrow> string \<Rightarrow> Group \<Rightarrow> pydict \<Rightarrow> world \<Rightarrow> result" where
  "create E uuid grp create_activity st =
     (case activity_object_id create_activity of
        Inl e \<Rightarrow> (Inl e, st)
      | Inr activity_id \<Rightarrow>
          (let actor = dict_get create_activity ''actor'';
               members = set (group_members st (g_id grp))
           in (case not_in_members actor members of
                 Inl e \<Rightarrow> (Inl e, st)
               | Inr True \<Rightarrow> (Inl (Abort 401 ''actor needs to be member of the group''), st)
               | Inr False \<Rightarrow>
                   (let members' = discard actor members;
                        announce_id = uuid;
                        announce_uri = PTuple [PStr (announce_url E announce_id)];
                        st1 = announce_object grp members' activity_id announce_uri st;
                        announce = \<lparr>ga_id = announce_id, ga_type = ''Announce'',
                                    ga_group_id = g_id grp,
                                    ga_object = json_dumps E activity_id\<rparr>;
                        st2 = save_activity announce st1
                    in (serialize_announce E announce, st2)))))"

text \<open>\<^verbatim>\<open>delete\<close> prints one line and returns nothing.\<close>

definition delete :: "Group \<Rightarrow> pydict \<Rightarrow> world \<Rightarrow> result" where
  "delete grp follow_activity st =
     (Inr PNone, st\<lparr>printed := printed st @ [''created '' @ g_id grp]\<rparr>)"

text \<open>
  \<^verbatim>\<open>announce_activity\<close>, the retrieval route: the value is the dictionary handed to
  \<^verbatim>\<open>activityjsonify\<close>; \<^verbatim>\<open>q.one()\<close> as in \<open>find_group\<close>. It reads only.
\<close>

definition announce_activity :: "env \<Rightarrow> string \<Rightarrow> world \<Rightarrow> error + pyval" where
  "announce_activity E announce_id st =
     (case filter (\<lambda>r. ga_id r = announce_id) (activity_tbl st) of
        [announce] \<Rightarrow>
          if ga_type announce \<noteq> ''Announce'' then Inl (Abort 404 [])
          else serialize_announce E announce
      | _ \<Rightarrow> Inl (Abort 404 []))"

text \<open>
  \<^verbatim>\<open>make_group\<close>. \<open>request_json\<close> is \<^verbatim>\<open>request.json\<close>: \<open>None\<close> without a JSON body,
  otherwise the decoded object. \<^verbatim>\<open>len\<close> is defined on strings, lists, tuples and
  dictionaries and raises \<^verbatim>\<open>TypeError\<close> on the other values. The group's key is a
  string; a \<^verbatim>\<open>group_name\<close> of another type that passes the length test reaches the storage
  layer, which the source does not decide (marked as for \<open>follow\<close>), and so does a
  \<^verbatim>\<open>name\<close> or \<^verbatim>\<open>summary\<close> of another type. The value returned is the dictionary handed to
  \<^verbatim>\<open>jsonify\<close>. The decorator \<^verbatim>\<open>check_logged_in\<close> runs before the body and is not part of it.
\<close>

definition py_len :: "pyval \<Rightarrow> error + nat" where
  "py_len v =
     (case v of
        PStr s \<Rightarrow> Inr (length s)
      | PList xs \<Rightarrow> Inr (length xs)
      | PTuple xs \<Rightarrow> Inr (length xs)
      | PDict d \<Rightarrow> Inr (length (remdups (map fst d)))
      | _ \<Rightarrow> Inl TypeError)"

definition make_group :: "pydict option \<Rightarrow> world \<Rightarrow> result" where
  "make_group request_json st =
     (case request_json of
        None \<Rightarrow> (Inl (Abort 400 ''Needs group_name''), st)
      | Some d \<Rightarrow>
          if d = [] \<or> map_of d ''group_name'' = None
          then (Inl (Abort 400 ''Needs group_name''), st)
          else
            (let group_name = dict_get d ''group_name'';
                 name = dict_get_default d ''name'' group_name;
                 summary = dict_get_default d ''summary'' (PStr [])
             in (case py_len group_name of
                   Inl e \<Rightarrow> (Inl e, st)
                 | Inr n1 \<Rightarrow>
                     if n1 > 128 then (Inl (Abort 400 ''group_name too long''), st)
                     else
                       (case py_len name of
                          Inl e \<Rightarrow> (Inl e, st)
                        | Inr n2 \<Rightarrow>
                            if n2 > 256 then (Inl (Abort 400 ''group_name too long''), st)
                            else
                              (case py_len summary of
                                 Inl e \<Rightarrow> (Inl e, st)
                               | Inr n3 \<Rightarrow>
                                   if n3 > 2560 then (Inl (Abort 400 ''summary too long''), st)
                                   else
                                     (case group_name of
                                        PStr gid \<Rightarrow>
                                          if find_group st gid \<noteq> None
                                          then (Inl (Abort 403 []), st)
                                          else
                                            (case (name, summary) of
                                               (PStr nm, PStr sm) \<Rightarrow>
                                                 (Inr (PDict [(''ok'', PBool True)]),
                                                  save_group \<lparr>g_id = gid, g_name = nm,
                                                              g_summary = sm\<rparr> st)
                                             | _ \<Rightarrow> (Inl IllTypedField, st))
                                      | _ \<Rightarrow> (Inl IllTypedField, st)))))))"

subsection \<open>Sequences of calls\<close>

text \<open>
  One call of a handler or of the registration route, with the identifier it draws where
  it draws one, and the state after a list of calls made one after the other.
\<close>

datatype call =
    Follow string Group pydict
  | Undo Group pydict
  | Create string Group pydict
  | Delete Group pydict
  | MakeGroup "pydict option"

fun step :: "env \<Rightarrow> call \<Rightarrow> world \<Rightarrow> world" where
  "step E (Follow u G a) st = snd (follow E u G a st)"
| "step E (Undo G a) st = snd (undo E G a st)"
| "step E (Create u G a) st = snd (create E u G a st)"
| "step E (Delete G a) st = snd (delete G a st)"
| "step E (MakeGroup req) st = snd (make_group req st)"

fun run :: "env \<Rightarrow> call list \<Rightarrow> world \<Rightarrow> world" where
  "run E [] st = st"
| "run E (c # cs) st = run E cs (step E c st)"

text \<open>The identifiers the Creates of a list of calls draw for their announces.\<close>

fun create_ids :: "call list \<Rightarrow> string list" where
  "create_ids [] = []"
| "create_ids (Create u G a # cs) = u # create_ids cs"
| "create_ids (c # cs) = create_ids cs"

subsection \<open>A concrete deployment\<close>

text \<open>
  The end-to-end example of the specification: the group \<^verbatim>\<open>book-club\<close>, remote actors,
  and an environment whose URL builders prefix a host and whose codec handles string
  payloads without escapes.
\<close>

definition example_env :: env where
  "example_env =
     \<lparr>actor_url = (\<lambda>i. ''https://federa.example/group/'' @ i),
      announce_url = (\<lambda>i. ''https://federa.example/group/activity/announce/'' @ i),
      json_dumps = (\<lambda>v. case v of PStr s \<Rightarrow> CHR 0x22 # s @ [CHR 0x22] | _ \<Rightarrow> ''null''),
      json_loads = (\<lambda>s. if 2 \<le> length s \<and> hd s = CHR 0x22 \<and> last s = CHR 0x22
                          then Inr (PStr (butlast (tl s))) else Inr PNone)\<rparr>"

definition book_club :: Group where
  "book_club = \<lparr>g_id = ''book-club'', g_name = ''Book Club'', g_summary = ''reads books''\<rparr>"

definition empty_world :: world where
  "empty_world = \<lparr>group_tbl = [], member_tbl = [], activity_tbl = [], accepts = [],
                   announces = [], printed = []\<rparr>"

definition alice :: string where
  "alice = ''https://peer/actors/alice''"

definition bob :: string where
  "bob = ''https://peer/actors/bob''"

definition carol :: string where
  "carol = ''https://peer/actors/carol''"

definition dave :: string where
  "dave = ''https://peer/actors/dave''"

definition follow_by :: "string \<Rightarrow> pydict" where
  "follow_by f = [(''type'', PStr ''Follow''), (''actor'', PStr f),
                  (''object'', PStr ''https://federa.example/group/book-club'')]"

definition undo_follow_by :: "string \<Rightarrow> pydict" where
  "undo_follow_by f = [(''type'', PStr ''Undo''), (''actor'', PStr f),
                       (''object'', PDict (follow_by f))]"

definition create_by :: "string \<Rightarrow> pyval \<Rightarrow> pydict" where
  "create_by f obj = [(''type'', PStr ''Create''), (''actor'', PStr f), (''object'', obj)]"

definition member_row :: "string \<Rightarrow> string \<Rightarrow> GroupMember" where
  "member_row u f = \<lparr>gm_id = u, gm_follower_id = f, gm_group_id = ''book-club''\<rparr>"

text \<open>The group with alice, bob and carol as members and an empty ledger.\<close>

definition club_world :: world where
  "club_world = empty_world\<lparr>group_tbl := [book_club],
     member_tbl := [member_row ''m1'' alice, member_row ''m2'' bob, member_row ''m3'' carol]\<rparr>"

text \<open>The same group with one announce already in the ledger, under the id \<^verbatim>\<open>a1\<close>.\<close>

definition stored_announce :: GroupActivity where
  "stored_announce = \<lparr>ga_id = ''a1'', ga_type = ''Announce'', ga_group_id = ''book-club'',
                       ga_object = CHR 0x22 # ''https://peer/objects/7'' @ [CHR 0x22]\<rparr>"

definition ledger_world :: world where
  "ledger_world = club_world\<lparr>activity_tbl := [stored_announce]\<rparr>"

text \<open>What alice's \<^verbatim>\<open>Create\<close> of object 42 returns in \<open>club_world\<close>, and the state after it.\<close>

definition created_42 :: pyval where
  "created_42 = PDict [(''id'', PStr ''https://federa.example/group/activity/announce/a1''),
                       (''type'', PStr ''Announce''),
                       (''actor'', PStr ''https://federa.example/group/book-club''),
                       (''object'', PStr ''https://peer/objects/42'')]"

definition announced_world :: world where
  "announced_world =
     club_world
       \<lparr>activity_tbl :=
          [\<lparr>ga_id = ''a1'', ga_type = ''Announce'', ga_group_id = ''book-club'',
            ga_object = CHR 0x22 # ''https://peer/objects/42'' @ [CHR 0x22]\<rparr>],
        announces :=
          [(book_club, {bob, carol}, PStr ''https://peer/objects/42'',
            PTuple [PStr ''https://federa.example/group/activity/announce/a1''])]\<rparr>"

text \<open>What happens after alice's Create: dave joins, bob creates, carol leaves.\<close>

definition later_calls :: "call list" where
  "later_calls =
     [Follow ''m4'' book_club (follow_by dave),
      Create ''a2'' book_club (create_by bob (PStr ''https://peer/objects/43'')),
      Undo book_club (undo_follow_by carol)]"

definition group_request :: "string \<Rightarrow> pydict" where
  "group_request gid = [(''group_name'', PStr gid), (''summary'', PStr ''reads books'')]"

subsection \<open>Reachable states\<close>

text \<open>
  The states the handlers produce one call after the other, from the empty store, with
  any arguments.
\<close>

inductive reachable :: "env \<Rightarrow> world \<Rightarrow> bool" for E :: env where
  start: "reachable E empty_world"
| by_follow: "reachable E st \<Longrightarrow> reachable E (snd (follow E u G a st))"
| by_undo: "reachable E st \<Longrightarrow> reachable E (snd (undo E G a st))"
| by_create: "reachable E st \<Longrightarrow> reachable E (snd (create E u G a st))"
| by_delete: "reachable E st \<Longrightarrow> reachable E (snd (delete G a st))"
| by_make_group: "reachable E st \<Longrightarrow> reachable E (snd (make_group req st))"

section \<open>Properties\<close>

subsection \<open>Queries and writes\<close>

lemma query_by_follower_empty:
  "query_by_follower st F gid = [] \<longleftrightarrow> F \<notin> set (group_members st gid)"
  by (auto simp: query_by_follower_def group_members_def filter_empty_conv)

lemma length_filter_filter: "length (filter P (filter Q xs)) \<le> length (filter P xs)"
  by (induction xs) auto

lemma length_filter_conj: "length (filter (\<lambda>x. Q x \<and> P x) xs) \<le> length (filter P xs)"
  by (induction xs) auto

lemma lookup_saved:
  "filter (\<lambda>r. ga_id r = ga_id a) (activity_tbl (save_activity a st)) = [a]"
  by (simp add: save_activity_def filter_empty_conv)

lemma others_kept:
  "filter (\<lambda>r. ga_id r \<noteq> ga_id a) (activity_tbl (save_activity a st))
   = filter (\<lambda>r. ga_id r \<noteq> ga_id a) (activity_tbl st)"
  by (simp add: save_activity_def)

lemma activity_tbl_announce_object [simp]:
  "activity_tbl (announce_object G ms oid uri st) = activity_tbl st"
  by (simp add: announce_object_def)

lemma find_saved_group: "find_group (save_group g st) (g_id g) = Some g"
  by (simp add: find_group_def save_group_def filter_empty_conv)

lemma lower_follow: "str_lower ''Follow'' = ''follow''"
  by code_simp

subsection \<open>The example's activities\<close>

lemma follow_by_actor: "dict_get (follow_by f) ''actor'' = PStr f"
  by (simp add: follow_by_def dict_get_def dict_get_default_def)

lemma follow_by_object:
  "dict_get (follow_by f) ''object'' = PStr (actor_url example_env (g_id book_club))"
  by (simp add: follow_by_def dict_get_def dict_get_default_def example_env_def book_club_def)

lemma follow_by_type: "py_lower (dict_get (follow_by f) ''type'') = Inr ''follow''"
  by (simp add: follow_by_def dict_get_def dict_get_default_def py_lower_def lower_follow)

lemma undo_follow_by_actor: "dict_get (undo_follow_by f) ''actor'' = PStr f"
  by (simp add: undo_follow_by_def dict_get_def dict_get_default_def)

lemma undo_follow_by_object:
  "dict_get_default (undo_follow_by f) ''object'' (PDict []) = PDict (follow_by f)"
  by (simp add: undo_follow_by_def dict_get_default_def)

lemma create_by_actor: "dict_get (create_by f obj) ''actor'' = PStr f"
  by (simp add: create_by_def dict_get_def dict_get_default_def)

lemma obj_id_str: "activity_object_id (create_by f (PStr s)) = Inr (PStr s)"
  by (simp add: activity_object_id_def create_by_def dict_get_def dict_get_default_def)

lemma nobody_in_empty_world: "f \<notin> set (group_members empty_world gid)"
  by (simp add: group_members_def empty_world_def)

lemma club_members: "group_members club_world (g_id book_club) = [alice, bob, carol]"
  by (simp add: group_members_def club_world_def member_row_def book_club_def empty_world_def)

lemma ledger_members: "group_members ledger_world (g_id book_club) = [alice, bob, carol]"
  by (simp add: group_members_def ledger_world_def club_world_def member_row_def book_club_def
      empty_world_def)

lemma names_distinct:
  "alice \<noteq> bob" "alice \<noteq> carol" "bob \<noteq> carol" "dave \<noteq> alice" "dave \<noteq> bob" "dave \<noteq> carol"
  by (simp_all add: alice_def bob_def carol_def dave_def)

subsection \<open>Follow and Undo\<close>

lemma follow_member:
  assumes "dict_get a ''actor'' = PStr F"
      and "dict_get a ''object'' = PStr (actor_url E (g_id G))"
      and "query_by_follower st F (g_id G) \<noteq> []"
  shows "follow E u G a st = (Inr py_done, st)"
  using assms by (simp add: follow_def)

lemma follow_not_member:
  assumes "dict_get a ''actor'' = PStr F"
      and "dict_get a ''object'' = PStr (actor_url E (g_id G))"
      and "query_by_follower st F (g_id G) = []"
  shows "follow E u G a st =
           (Inr py_done,
            accept_object G F a
              (save_member \<lparr>gm_id = u, gm_follower_id = F, gm_group_id = g_id G\<rparr> st))"
  using assms by (simp add: follow_def)

lemma query_after_join:
  assumes "query_by_follower st F gid = []"
  shows "query_by_follower
           (accept_object G F a
              (save_member \<lparr>gm_id = u, gm_follower_id = F, gm_group_id = gid\<rparr> st)) F gid
         = [\<lparr>gm_id = u, gm_follower_id = F, gm_group_id = gid\<rparr>]"
  using assms
  by (simp add: query_by_follower_def accept_object_def save_member_def filter_empty_conv)

lemma delete_after_join:
  assumes "u \<notin> gm_id ` set (member_tbl st)"
  shows "member_tbl (delete_member \<lparr>gm_id = u, gm_follower_id = F, gm_group_id = gid\<rparr>
           (accept_object G F a
              (save_member \<lparr>gm_id = u, gm_follower_id = F, gm_group_id = gid\<rparr> st)))
         = member_tbl st"
proof -
  from assms have "filter (\<lambda>r. gm_id r \<noteq> u) (member_tbl st) = member_tbl st"
    by (auto simp: filter_id_conv)
  then show ?thesis
    by (simp add: delete_member_def accept_object_def save_member_def)
qed

lemma undo_follow_member:
  assumes "dict_get ua ''actor'' = PStr F"
      and "dict_get_default ua ''object'' (PDict []) = PDict act"
      and "py_lower (dict_get act ''type'') = Inr ''follow''"
      and "dict_get act ''actor'' = PStr F"
      and "dict_get act ''object'' = PStr (actor_url E (g_id G))"
  shows "undo E G ua st =
           (case query_by_follower st F (g_id G) of
              [] \<Rightarrow> (Inr py_done, st)
            | membership # _ \<Rightarrow> (Inr py_done, delete_member membership st))"
  using assms by (simp add: undo_def)

text \<open>
  An Undo whose object has a type that is a string other than a spelling of
  \<^verbatim>\<open>follow\<close> is accepted and ignored.
\<close>

lemma undo_other_type_noop:
  assumes "dict_get_default ua ''object'' (PDict []) = PDict act"
      and "dict_get act ''type'' = PStr t"
      and "str_lower t \<noteq> ''follow''"
  shows "undo E G ua st = (Inr py_done, st)"
  using assms by (simp add: undo_def py_lower_def)

subsection \<open>At most one edge per group and follower\<close>

lemma member_tbl_follow:
  "member_tbl (snd (follow E u G a st)) = member_tbl st
   \<or> (\<exists>F. query_by_follower st F (g_id G) = []
          \<and> member_tbl (snd (follow E u G a st))
            = filter (\<lambda>r. gm_id r \<noteq> u) (member_tbl st)
              @ [\<lparr>gm_id = u, gm_follower_id = F, gm_group_id = g_id G\<rparr>])"
  by (auto simp: follow_def Let_def save_member_def accept_object_def split: pyval.splits)

lemma undo_shrinks_members:
  "length (filter P (member_tbl (snd (undo E G a st)))) \<le> length (filter P (member_tbl st))"
  by (simp add: undo_def Let_def delete_member_def length_filter_conj
      split: pyval.splits sum.splits list.splits)

lemma member_tbl_create: "member_tbl (snd (create E u G a st)) = member_tbl st"
  by (auto simp: create_def Let_def save_activity_def announce_object_def
      split: sum.splits bool.splits)

lemma member_tbl_delete: "member_tbl (snd (delete G a st)) = member_tbl st"
  by (simp add: delete_def)

lemma member_tbl_make_group: "member_tbl (snd (make_group req st)) = member_tbl st"
  by (auto simp: make_group_def Let_def save_group_def
      split: option.splits sum.splits pyval.splits)

lemma follow_keeps_single_edge:
  assumes "\<And>F gid. length (query_by_follower st F gid) \<le> 1"
  shows "length (query_by_follower (snd (follow E u G a st)) F' gid') \<le> 1"
proof -
  let ?P = "\<lambda>m. gm_follower_id m = F' \<and> gm_group_id m = gid'"
  from member_tbl_follow [of E u G a st] show ?thesis
  proof
    assume "member_tbl (snd (follow E u G a st)) = member_tbl st"
    with assms [of F' gid'] show ?thesis by (simp add: query_by_follower_def)
  next
    assume "\<exists>F. query_by_follower st F (g_id G) = []
          \<and> member_tbl (snd (follow E u G a st))
            = filter (\<lambda>r. gm_id r \<noteq> u) (member_tbl st)
              @ [\<lparr>gm_id = u, gm_follower_id = F, gm_group_id = g_id G\<rparr>]"
    then obtain F where none: "query_by_follower st F (g_id G) = []"
      and tbl: "member_tbl (snd (follow E u G a st))
                = filter (\<lambda>r. gm_id r \<noteq> u) (member_tbl st)
                  @ [\<lparr>gm_id = u, gm_follower_id = F, gm_group_id = g_id G\<rparr>]"
      by blast
    have rest: "length (filter ?P (filter (\<lambda>r. gm_id r \<noteq> u) (member_tbl st))) \<le> 1"
      using length_filter_filter [of ?P "\<lambda>r. gm_id r \<noteq> u" "member_tbl st"] assms [of F' gid']
      by (simp add: query_by_follower_def)
    show ?thesis
    proof (cases "F' = F \<and> gid' = g_id G")
      case True
      with none have "filter ?P (member_tbl st) = []" by (simp add: query_by_follower_def)
      then have "length (filter ?P (filter (\<lambda>r. gm_id r \<noteq> u) (member_tbl st))) = 0"
        using length_filter_filter [of ?P "\<lambda>r. gm_id r \<noteq> u" "member_tbl st"] by simp
      with tbl show ?thesis unfolding query_by_follower_def by simp
    next
      case False
      with tbl rest show ?thesis unfolding query_by_follower_def by auto
    qed
  qed
qed

lemma undo_keeps_single_edge:
  assumes "\<And>F gid. length (query_by_follower st F gid) \<le> 1"
  shows "length (query_by_follower (snd (undo E G a st)) F' gid') \<le> 1"
  using undo_shrinks_members [of "\<lambda>m. gm_follower_id m = F' \<and> gm_group_id m = gid'" E G a st]
    assms [of F' gid']
  by (simp add: query_by_follower_def)

text \<open>
  The data model's invariant holds in every reachable state: a group and a follower
  have at most one edge.
\<close>

lemma reachable_single_edge:
  "reachable E st \<Longrightarrow> length (query_by_follower st F gid) \<le> 1"
proof (induction arbitrary: F gid rule: reachable.induct)
  case start
  show ?case by (simp add: query_by_follower_def empty_world_def)
next
  case (by_follow st u G a)
  from by_follow.IH show ?case by (intro follow_keeps_single_edge)
next
  case (by_undo st G a)
  from by_undo.IH show ?case by (intro undo_keeps_single_edge)
next
  case (by_create st u G a)
  then show ?case by (simp add: query_by_follower_def member_tbl_create)
next
  case (by_delete st G a)
  then show ?case by (simp add: query_by_follower_def member_tbl_delete)
next
  case (by_make_group st req)
  then show ?case by (simp add: query_by_follower_def member_tbl_make_group)
qed

text \<open>
  C1 (idempotent Follow). Take a valid Follow of follower \<open>F\<close> to group \<open>G\<close>: its actor
  is \<open>F\<close> and its object is the group's actor URI. From a store that holds at most one
  edge for \<open>(G, F)\<close>, as the data model requires and every reachable state does, two
  deliveries in sequence both return \<^verbatim>\<open>"done"\<close> and leave exactly one edge for
  \<open>(G, F)\<close>; the second delivery changes nothing at all, so it creates no edge and emits
  no second Accept.
\<close>

theorem follow_idempotent:
  assumes actor: "dict_get a ''actor'' = PStr F"
      and target: "dict_get a ''object'' = PStr (actor_url E (g_id G))"
      and inv: "length (query_by_follower st F (g_id G)) \<le> 1"
      and first: "follow E u1 G a st = (r1, st1)"
      and second: "follow E u2 G a st1 = (r2, st2)"
  shows "r1 = Inr py_done \<and> r2 = Inr py_done
         \<and> length (query_by_follower st2 F (g_id G)) = 1 \<and> st2 = st1"
proof (cases "query_by_follower st F (g_id G) = []")
  case True
  from follow_not_member [OF actor target True] first
  have r1: "r1 = Inr py_done"
    and st1: "st1 = accept_object G F a
              (save_member \<lparr>gm_id = u1, gm_follower_id = F, gm_group_id = g_id G\<rparr> st)"
    by simp_all
  from query_after_join [OF True] st1
  have q1: "query_by_follower st1 F (g_id G)
            = [\<lparr>gm_id = u1, gm_follower_id = F, gm_group_id = g_id G\<rparr>]"
    by simp
  then have "query_by_follower st1 F (g_id G) \<noteq> []" by simp
  from follow_member [OF actor target this] second
  have "r2 = Inr py_done" and "st2 = st1" by simp_all
  with r1 q1 show ?thesis by simp
next
  case False
  from follow_member [OF actor target False] first
  have r1: "r1 = Inr py_done" and st1: "st1 = st" by simp_all
  from follow_member [OF actor target False] second st1
  have r2: "r2 = Inr py_done" and st2: "st2 = st1" by simp_all
  from False inv have "length (query_by_follower st F (g_id G)) = 1"
    by (cases "query_by_follower st F (g_id G)") simp_all
  with r1 r2 st1 st2 show ?thesis by simp
qed

theorem follow_idempotent_witness:
  "dict_get (follow_by alice) ''actor'' = PStr alice
   \<and> dict_get (follow_by alice) ''object'' = PStr (actor_url example_env (g_id book_club))
   \<and> length (query_by_follower empty_world alice (g_id book_club)) \<le> 1
   \<and> fst (follow example_env ''u1'' book_club (follow_by alice) empty_world) = Inr py_done
   \<and> fst (follow example_env ''u2'' book_club (follow_by alice)
             (snd (follow example_env ''u1'' book_club (follow_by alice) empty_world)))
       = Inr py_done
   \<and> length (query_by_follower
        (snd (follow example_env ''u2'' book_club (follow_by alice)
             (snd (follow example_env ''u1'' book_club (follow_by alice) empty_world))))
         alice (g_id book_club)) = 1
   \<and> snd (follow example_env ''u2'' book_club (follow_by alice)
             (snd (follow example_env ''u1'' book_club (follow_by alice) empty_world)))
       = snd (follow example_env ''u1'' book_club (follow_by alice) empty_world)"
proof -
  have i: "length (query_by_follower empty_world alice (g_id book_club)) \<le> 1"
    by (simp add: query_by_follower_def empty_world_def)
  from follow_idempotent [OF follow_by_actor follow_by_object i
      surjective_pairing surjective_pairing, of "''u1''" "''u2''"]
    follow_by_actor [of alice] follow_by_object [of alice] i
  show ?thesis by blast
qed

text \<open>
  C6 (idempotent Undo). Take a valid Undo of a Follow of \<open>F\<close> to \<open>G\<close>: its actor is
  \<open>F\<close>, its object is a dictionary whose type is a spelling of \<^verbatim>\<open>follow\<close>, whose actor
  is \<open>F\<close> and whose object is the group's actor URI. When \<open>F\<close> is not a member of \<open>G\<close>
  the handler returns \<^verbatim>\<open>"done"\<close> and the whole state, the membership of \<open>G\<close> included,
  is unchanged.
\<close>

theorem undo_idempotent:
  assumes "dict_get ua ''actor'' = PStr F"
      and "dict_get_default ua ''object'' (PDict []) = PDict act"
      and "py_lower (dict_get act ''type'') = Inr ''follow''"
      and "dict_get act ''actor'' = PStr F"
      and "dict_get act ''object'' = PStr (actor_url E (g_id G))"
      and "F \<notin> set (group_members st (g_id G))"
  shows "undo E G ua st = (Inr py_done, st)"
proof -
  from assms(6) have "query_by_follower st F (g_id G) = []"
    by (simp add: query_by_follower_empty)
  with undo_follow_member [OF assms(1-5), of st] show ?thesis by simp
qed

theorem undo_idempotent_witness:
  "dict_get (undo_follow_by alice) ''actor'' = PStr alice
   \<and> dict_get_default (undo_follow_by alice) ''object'' (PDict []) = PDict (follow_by alice)
   \<and> py_lower (dict_get (follow_by alice) ''type'') = Inr ''follow''
   \<and> dict_get (follow_by alice) ''actor'' = PStr alice
   \<and> dict_get (follow_by alice) ''object'' = PStr (actor_url example_env (g_id book_club))
   \<and> alice \<notin> set (group_members empty_world (g_id book_club))
   \<and> undo example_env book_club (undo_follow_by alice) empty_world = (Inr py_done, empty_world)"
  using undo_idempotent [OF undo_follow_by_actor undo_follow_by_object follow_by_type
      follow_by_actor follow_by_object nobody_in_empty_world, of alice]
    undo_follow_by_actor [of alice] undo_follow_by_object [of alice] follow_by_type [of alice]
    follow_by_actor [of alice] follow_by_object [of alice]
    nobody_in_empty_world [of alice "g_id book_club"]
  by blast

text \<open>
  C7 (Follow then Undo). Let \<open>F\<close> not be a member of \<open>G\<close>, and let the identifier drawn
  for the new edge be fresh, as \<^verbatim>\<open>uuid4\<close> promises. A valid Follow of \<open>F\<close> to \<open>G\<close> followed
  by a valid Undo of it both return \<^verbatim>\<open>"done"\<close>; \<open>F\<close> is a member in between, and
  afterwards the membership table is the one before the Follow, so the members of \<open>G\<close>
  are the prior ones and \<open>F\<close> is absent.
\<close>

theorem follow_undo_inverse:
  assumes factor: "dict_get fa ''actor'' = PStr F"
      and ftarget: "dict_get fa ''object'' = PStr (actor_url E (g_id G))"
      and uactor: "dict_get ua ''actor'' = PStr F"
      and uobject: "dict_get_default ua ''object'' (PDict []) = PDict act"
      and utype: "py_lower (dict_get act ''type'') = Inr ''follow''"
      and aactor: "dict_get act ''actor'' = PStr F"
      and atarget: "dict_get act ''object'' = PStr (actor_url E (g_id G))"
      and absent: "F \<notin> set (group_members st (g_id G))"
      and fresh: "uuid \<notin> gm_id ` set (member_tbl st)"
      and first: "follow E uuid G fa st = (r1, st1)"
      and second: "undo E G ua st1 = (r2, st2)"
  shows "r1 = Inr py_done \<and> r2 = Inr py_done
         \<and> F \<in> set (group_members st1 (g_id G))
         \<and> member_tbl st2 = member_tbl st
         \<and> group_members st2 (g_id G) = group_members st (g_id G)
         \<and> F \<notin> set (group_members st2 (g_id G))"
proof -
  let ?row = "\<lparr>gm_id = uuid, gm_follower_id = F, gm_group_id = g_id G\<rparr>"
  from absent have none: "query_by_follower st F (g_id G) = []"
    by (simp add: query_by_follower_empty)
  from follow_not_member [OF factor ftarget none] first
  have r1: "r1 = Inr py_done" and st1: "st1 = accept_object G F fa (save_member ?row st)"
    by simp_all
  from query_after_join [OF none] st1
  have q1: "query_by_follower st1 F (g_id G) = [?row]" by simp
  then have joined: "F \<in> set (group_members st1 (g_id G))"
    using query_by_follower_empty [of st1 F "g_id G"] by simp
  from undo_follow_member [OF uactor uobject utype aactor atarget, of st1] q1 second
  have r2: "r2 = Inr py_done" and st2: "st2 = delete_member ?row st1" by simp_all
  from st2 st1 delete_after_join [OF fresh] have tbl: "member_tbl st2 = member_tbl st"
    by simp
  then have "group_members st2 (g_id G) = group_members st (g_id G)"
    by (simp add: group_members_def)
  with r1 r2 joined tbl absent show ?thesis by simp
qed

theorem follow_undo_inverse_witness:
  "dict_get (follow_by alice) ''actor'' = PStr alice
   \<and> dict_get (follow_by alice) ''object'' = PStr (actor_url example_env (g_id book_club))
   \<and> dict_get (undo_follow_by alice) ''actor'' = PStr alice
   \<and> dict_get_default (undo_follow_by alice) ''object'' (PDict []) = PDict (follow_by alice)
   \<and> py_lower (dict_get (follow_by alice) ''type'') = Inr ''follow''
   \<and> alice \<notin> set (group_members empty_world (g_id book_club))
   \<and> ''u1'' \<notin> gm_id ` set (member_tbl empty_world)
   \<and> fst (follow example_env ''u1'' book_club (follow_by alice) empty_world) = Inr py_done
   \<and> fst (undo example_env book_club (undo_follow_by alice)
            (snd (follow example_env ''u1'' book_club (follow_by alice) empty_world)))
       = Inr py_done
   \<and> alice \<in> set (group_members
        (snd (follow example_env ''u1'' book_club (follow_by alice) empty_world))
        (g_id book_club))
   \<and> member_tbl (snd (undo example_env book_club (undo_follow_by alice)
            (snd (follow example_env ''u1'' book_club (follow_by alice) empty_world))))
       = member_tbl empty_world"
proof -
  have fresh: "''u1'' \<notin> gm_id ` set (member_tbl empty_world)"
    by (simp add: empty_world_def)
  from follow_undo_inverse [OF follow_by_actor follow_by_object undo_follow_by_actor
      undo_follow_by_object follow_by_type follow_by_actor follow_by_object
      nobody_in_empty_world fresh surjective_pairing surjective_pairing, of alice]
    follow_by_actor [of alice] follow_by_object [of alice] undo_follow_by_actor [of alice]
    undo_follow_by_object [of alice] follow_by_type [of alice]
    nobody_in_empty_world [of alice "g_id book_club"] fresh
  show ?thesis by blast
qed

text \<open>
  C5 (Undo of an object without a type). The handler reads the object with the default
  \<^verbatim>\<open>{}\<close> and calls \<^verbatim>\<open>.lower()\<close> on what \<^verbatim>\<open>.get("type")\<close> returns. For an Undo with no
  object, and for one whose object has no type, that value is \<^verbatim>\<open>None\<close> and the call
  raises \<^verbatim>\<open>AttributeError\<close>: the handler does not return \<^verbatim>\<open>"done"\<close>. The state is
  unchanged. (With a type that is a string, \<open>undo_other_type_noop\<close> is the no-op.)
\<close>

theorem undo_missing_type_raises:
  "undo example_env book_club [(''type'', PStr ''Undo''), (''actor'', PStr alice)] club_world
     = (Inl AttributeError, club_world)
   \<and> undo example_env book_club
       [(''type'', PStr ''Undo''), (''actor'', PStr alice),
        (''object'', PDict [(''id'', PStr ''https://peer/likes/7'')])] club_world
     = (Inl AttributeError, club_world)"
  by (simp add: undo_def dict_get_def dict_get_default_def py_lower_def)

subsection \<open>Create\<close>

lemma create_rejected_early:
  assumes "activity_object_id a = Inl e"
  shows "create E u G a st = (Inl e, st)"
  using assms by (simp add: create_def)

lemma create_not_member:
  assumes "activity_object_id a = Inr oid"
      and "hashable (dict_get a ''actor'')"
      and "dict_get a ''actor'' \<notin> PStr ` set (group_members st (g_id G))"
  shows "create E u G a st = (Inl (Abort 401 ''actor needs to be member of the group''), st)"
proof -
  from assms(2,3)
  have "not_in_members (dict_get a ''actor'') (set (group_members st (g_id G))) = Inr True"
    by (auto simp: not_in_members_def split: pyval.splits)
  with assms(1) show ?thesis by (simp add: create_def)
qed

lemma create_member:
  assumes "activity_object_id a = Inr oid"
      and "dict_get a ''actor'' = PStr A"
      and "A \<in> set (group_members st (g_id G))"
  shows "create E u G a st =
           (serialize_announce E
              \<lparr>ga_id = u, ga_type = ''Announce'', ga_group_id = g_id G,
                ga_object = json_dumps E oid\<rparr>,
            save_activity
              \<lparr>ga_id = u, ga_type = ''Announce'', ga_group_id = g_id G,
                ga_object = json_dumps E oid\<rparr>
              (announce_object G (set (group_members st (g_id G)) - {A}) oid
                 (PTuple [PStr (announce_url E u)]) st))"
proof -
  from assms(2,3)
  have "not_in_members (dict_get a ''actor'') (set (group_members st (g_id G))) = Inr False"
    by (simp add: not_in_members_def)
  with assms(1,2) show ?thesis by (simp add: create_def discard_def Let_def)
qed

text \<open>A Create that returns a value came from a member and carried an object identifier.\<close>

lemma create_success_cases:
  assumes "create E u G a st = (Inr R, st')"
  obtains oid A where "activity_object_id a = Inr oid" "dict_get a ''actor'' = PStr A"
    "A \<in> set (group_members st (g_id G))"
proof (cases "activity_object_id a")
  case (Inl e)
  with assms show ?thesis by (simp add: create_def)
next
  case (Inr oid)
  show ?thesis
  proof (cases "not_in_members (dict_get a ''actor'') (set (group_members st (g_id G)))")
    case (Inl e)
    with assms Inr show ?thesis by (simp add: create_def)
  next
    case nim: (Inr b)
    with assms Inr have "\<not> b" by (cases b) (simp_all add: create_def)
    with nim obtain A where "dict_get a ''actor'' = PStr A"
      "A \<in> set (group_members st (g_id G))"
      by (auto simp: not_in_members_def split: if_splits pyval.splits)
    with Inr that show ?thesis by blast
  qed
qed

text \<open>
  The one call a successful Create makes to the announce transport, in general: the
  recipients are the members without the actor, the second argument is the object's
  identifier, the third is the tuple around the announce URI.
\<close>

lemma create_announce_call:
  assumes "activity_object_id a = Inr oid"
      and "dict_get a ''actor'' = PStr A"
      and "A \<in> set (group_members st (g_id G))"
  shows "announces (snd (create E u G a st))
         = announces st @ [(G, set (group_members st (g_id G)) - {A}, oid,
                            PTuple [PStr (announce_url E u)])]"
  by (simp add: create_member [OF assms] save_activity_def announce_object_def)

lemma create_by_alice:
  "create example_env ''a1'' book_club (create_by alice (PStr ''https://peer/objects/42''))
     club_world = (Inr created_42, announced_world)"
proof -
  have m: "alice \<in> set (group_members club_world (g_id book_club))"
    by (simp add: club_members)
  have r: "set (group_members club_world (g_id book_club)) - {alice} = {bob, carol}"
    using names_distinct by (auto simp: club_members)
  show ?thesis
    unfolding create_member [OF obj_id_str create_by_actor m] r
    by (simp add: serialize_announce_def example_env_def save_activity_def announce_object_def
        club_world_def empty_world_def book_club_def created_42_def announced_world_def)
qed

text \<open>
  C2 (membership gate on Create), as the handler has it. Let the actor of a Create be a
  value that can be looked up in the member set (a string, or absent) and not a member
  of \<open>G\<close>. The handler ends with an error and the whole state is unchanged: no record
  is appended and the announce transport is not called. The rejection is \<^verbatim>\<open>NotAMember\<close>
  (401) when the object is a string or a dictionary with an \<^verbatim>\<open>id\<close>. A Create without an
  object, or whose object is a dictionary without an \<^verbatim>\<open>id\<close>, is rejected before the
  membership test with \<^verbatim>\<open>MissingObject\<close> (400). An object of any other type has no
  \<^verbatim>\<open>.get\<close>, and the handler raises \<^verbatim>\<open>AttributeError\<close> before the membership test.
\<close>

theorem create_nonmember_rejected:
  assumes "hashable (dict_get a ''actor'')"
      and "dict_get a ''actor'' \<notin> PStr ` set (group_members st (g_id G))"
  shows "create E u G a st =
           (Inl (case dict_get a ''object'' of
                   PNone \<Rightarrow> Abort 400 ''activity not detailed''
                 | PStr s \<Rightarrow> Abort 401 ''actor needs to be member of the group''
                 | PDict d \<Rightarrow>
                     if dict_get d ''id'' = PNone then Abort 400 ''not external activity id''
                     else Abort 401 ''actor needs to be member of the group''
                 | _ \<Rightarrow> AttributeError), st)"
proof (cases "activity_object_id a")
  case (Inl e)
  then have "e = (case dict_get a ''object'' of
                   PNone \<Rightarrow> Abort 400 ''activity not detailed''
                 | PStr s \<Rightarrow> Abort 401 ''actor needs to be member of the group''
                 | PDict d \<Rightarrow>
                     if dict_get d ''id'' = PNone then Abort 400 ''not external activity id''
                     else Abort 401 ''actor needs to be member of the group''
                 | _ \<Rightarrow> AttributeError)"
    by (auto simp: activity_object_id_def Let_def split: pyval.splits if_splits)
  with create_rejected_early [OF Inl] show ?thesis by simp
next
  case (Inr oid)
  then have "Abort 401 ''actor needs to be member of the group''
             = (case dict_get a ''object'' of
                   PNone \<Rightarrow> Abort 400 ''activity not detailed''
                 | PStr s \<Rightarrow> Abort 401 ''actor needs to be member of the group''
                 | PDict d \<Rightarrow>
                     if dict_get d ''id'' = PNone then Abort 400 ''not external activity id''
                     else Abort 401 ''actor needs to be member of the group''
                 | _ \<Rightarrow> AttributeError)"
    by (auto simp: activity_object_id_def Let_def split: pyval.splits if_splits)
  with create_not_member [OF Inr assms] show ?thesis by simp
qed

text \<open>
  dave is not a member: his Create of object 42 is rejected with 401, his Create of an
  embedded object without an \<^verbatim>\<open>id\<close> with 400.
\<close>

theorem create_nonmember_rejected_witness:
  "hashable (dict_get (create_by dave (PStr ''https://peer/objects/42'')) ''actor'')
   \<and> dict_get (create_by dave (PStr ''https://peer/objects/42'')) ''actor''
        \<notin> PStr ` set (group_members club_world (g_id book_club))
   \<and> create example_env ''a1'' book_club (create_by dave (PStr ''https://peer/objects/42''))
        club_world
       = (Inl (Abort 401 ''actor needs to be member of the group''), club_world)
   \<and> hashable (dict_get (create_by dave (PDict [(''type'', PStr ''Note'')])) ''actor'')
   \<and> dict_get (create_by dave (PDict [(''type'', PStr ''Note'')])) ''actor''
        \<notin> PStr ` set (group_members club_world (g_id book_club))
   \<and> create example_env ''a1'' book_club (create_by dave (PDict [(''type'', PStr ''Note'')]))
        club_world
       = (Inl (Abort 400 ''not external activity id''), club_world)"
proof -
  have h: "hashable (dict_get (create_by dave obj) ''actor'')" for obj
    by (simp add: create_by_actor)
  have n: "dict_get (create_by dave obj) ''actor''
        \<notin> PStr ` set (group_members club_world (g_id book_club))" for obj
    by (simp add: create_by_actor club_members names_distinct)
  have o: "dict_get (create_by f obj) ''object'' = obj" for f obj
    by (simp add: create_by_def dict_get_def dict_get_default_def)
  have i: "dict_get [(''type'', PStr ''Note'')] ''id'' = PNone"
    by (simp add: dict_get_def dict_get_default_def)
  have r1: "create example_env ''a1'' book_club
              (create_by dave (PStr ''https://peer/objects/42'')) club_world
            = (Inl (Abort 401 ''actor needs to be member of the group''), club_world)"
    using create_nonmember_rejected [OF h [of "PStr ''https://peer/objects/42''"]
        n [of "PStr ''https://peer/objects/42''"], of example_env "''a1''"]
    by (simp add: o)
  have r2: "create example_env ''a1'' book_club
              (create_by dave (PDict [(''type'', PStr ''Note'')])) club_world
            = (Inl (Abort 400 ''not external activity id''), club_world)"
    using create_nonmember_rejected [OF h [of "PDict [(''type'', PStr ''Note'')]"]
        n [of "PDict [(''type'', PStr ''Note'')]"], of example_env "''a1''"]
    by (simp add: o i)
  from r1 r2 h [of "PStr ''https://peer/objects/42''"] n [of "PStr ''https://peer/objects/42''"]
    h [of "PDict [(''type'', PStr ''Note'')]"] n [of "PDict [(''type'', PStr ''Note'')]"]
  show ?thesis by blast
qed

text \<open>
  The claim as stated, with \<^verbatim>\<open>NotAMember\<close> for every Create of a non-member, fails on a
  Create without an object: dave is not a member, and the rejection is 400, not 401.
\<close>

theorem create_gate_counterexample:
  "dave \<notin> set (group_members club_world (g_id book_club))
   \<and> create example_env ''a1'' book_club [(''type'', PStr ''Create''), (''actor'', PStr dave)]
        club_world
       = (Inl (Abort 400 ''activity not detailed''), club_world)
   \<and> Abort 400 ''activity not detailed'' \<noteq> Abort 401 ''actor needs to be member of the group''"
  by (simp add: club_members names_distinct create_def activity_object_id_def dict_get_def
      dict_get_default_def)

text \<open>
  C3 (shape of the fan-out call). With alice, bob and carol the members of the group,
  alice's Create of object 42 under the fresh id \<^verbatim>\<open>a1\<close> succeeds and calls the announce
  transport once, with the recipients bob and carol and the object's identifier. The
  third argument is not the announce URI: it is the tuple of one component that the
  source builds around it.
\<close>

theorem create_fanout_tuple:
  "fst (create example_env ''a1'' book_club
          (create_by alice (PStr ''https://peer/objects/42'')) club_world) = Inr created_42
   \<and> announces club_world = []
   \<and> announces (snd (create example_env ''a1'' book_club
          (create_by alice (PStr ''https://peer/objects/42'')) club_world))
       = [(book_club, {bob, carol}, PStr ''https://peer/objects/42'',
           PTuple [PStr (announce_url example_env ''a1'')])]
   \<and> PTuple [PStr (announce_url example_env ''a1'')] \<noteq> PStr (announce_url example_env ''a1'')"
proof -
  have u: "announce_url example_env ''a1''
           = ''https://federa.example/group/activity/announce/a1''"
    by (simp add: example_env_def)
  have before: "announces club_world = []"
    by (simp add: club_world_def empty_world_def)
  have after: "announces announced_world
               = [(book_club, {bob, carol}, PStr ''https://peer/objects/42'',
                   PTuple [PStr ''https://federa.example/group/activity/announce/a1''])]"
    by (simp add: announced_world_def)
  show ?thesis
    unfolding u by (simp add: create_by_alice before after)
qed

text \<open>
  What a Create stored under its id is still looked up, with the same result, in every
  state that holds the same rows under that id.
\<close>

lemma announce_lookup_kept:
  assumes created: "create E uuid G a st = (Inr R, st')"
      and kept: "filter (\<lambda>r. ga_id r = uuid) (activity_tbl st'')
                 = filter (\<lambda>r. ga_id r = uuid) (activity_tbl st')"
  shows "announce_activity E uuid st'' = Inr R
         \<and> (\<exists>obj. R = PDict [(''id'', PStr (announce_url E uuid)),
                              (''type'', PStr ''Announce''),
                              (''actor'', PStr (actor_url E (g_id G))),
                              (''object'', obj)])"
proof -
  from created obtain oid A where oid: "activity_object_id a = Inr oid"
    and A: "dict_get a ''actor'' = PStr A" "A \<in> set (group_members st (g_id G))"
    by (rule create_success_cases)
  let ?row = "\<lparr>ga_id = uuid, ga_type = ''Announce'', ga_group_id = g_id G,
                ga_object = json_dumps E oid\<rparr>"
  from create_member [OF oid A, of E uuid] created
  have R: "serialize_announce E ?row = Inr R"
    and st': "st' = save_activity ?row
                (announce_object G (set (group_members st (g_id G)) - {A}) oid
                   (PTuple [PStr (announce_url E uuid)]) st)"
    by simp_all
  from lookup_saved [of ?row] st'
  have "filter (\<lambda>r. ga_id r = uuid) (activity_tbl st') = [?row]" by simp
  with kept have "filter (\<lambda>r. ga_id r = uuid) (activity_tbl st'') = [?row]" by simp
  then have lookup: "announce_activity E uuid st'' = serialize_announce E ?row"
    by (simp add: announce_activity_def)
  from R have "\<exists>obj. R = PDict [(''id'', PStr (announce_url E uuid)),
                              (''type'', PStr ''Announce''),
                              (''actor'', PStr (actor_url E (g_id G))),
                              (''object'', obj)]"
    by (auto simp: serialize_announce_def split: sum.splits)
  with lookup R show ?thesis by simp
qed

text \<open>
  No handler removes or changes a record of the ledger: Follow, Undo, Delete and the
  registration of a group leave the ledger as it is, and a Create touches only the rows
  under the id it draws.
\<close>

lemma activity_tbl_follow: "activity_tbl (snd (follow E u G a st)) = activity_tbl st"
  by (simp add: follow_def Let_def save_member_def accept_object_def split: pyval.splits)

lemma activity_tbl_undo: "activity_tbl (snd (undo E G a st)) = activity_tbl st"
  by (simp add: undo_def Let_def delete_member_def
      split: pyval.splits sum.splits list.splits)

lemma activity_tbl_delete: "activity_tbl (snd (delete G a st)) = activity_tbl st"
  by (simp add: delete_def)

lemma activity_tbl_make_group: "activity_tbl (snd (make_group req st)) = activity_tbl st"
  by (auto simp: make_group_def Let_def save_group_def
      split: option.splits sum.splits pyval.splits)

lemma create_keeps_other_ids:
  assumes "u \<noteq> uuid"
  shows "filter (\<lambda>r. ga_id r = uuid) (activity_tbl (snd (create E u G a st)))
         = filter (\<lambda>r. ga_id r = uuid) (activity_tbl st)"
proof -
  have "filter (\<lambda>r. ga_id r = uuid) (filter (\<lambda>r. ga_id r \<noteq> u) xs)
        = filter (\<lambda>r. ga_id r = uuid) xs" for xs :: "GroupActivity list"
    using assms by (induction xs) auto
  with assms show ?thesis
    by (auto simp: create_def Let_def save_activity_def announce_object_def
        split: sum.splits bool.splits)
qed

lemma step_keeps_record:
  assumes "uuid \<notin> set (create_ids [c])"
  shows "filter (\<lambda>r. ga_id r = uuid) (activity_tbl (step E c st))
         = filter (\<lambda>r. ga_id r = uuid) (activity_tbl st)"
proof (cases c)
  case (Create u G a)
  with assms have "u \<noteq> uuid" by auto
  with Create show ?thesis by (simp add: create_keeps_other_ids)
qed (simp_all add: activity_tbl_follow activity_tbl_undo activity_tbl_delete
    activity_tbl_make_group)

lemma create_ids_Cons: "set (create_ids (c # cs)) = set (create_ids [c]) \<union> set (create_ids cs)"
  by (cases c) simp_all

lemma run_keeps_record:
  assumes "uuid \<notin> set (create_ids cs)"
  shows "filter (\<lambda>r. ga_id r = uuid) (activity_tbl (run E cs st))
         = filter (\<lambda>r. ga_id r = uuid) (activity_tbl st)"
  using assms
proof (induction cs arbitrary: st)
  case Nil
  show ?case by simp
next
  case (Cons c cs)
  from Cons.prems have c: "uuid \<notin> set (create_ids [c])" and cs: "uuid \<notin> set (create_ids cs)"
    by (simp_all add: create_ids_Cons [of c cs])
  from Cons.IH [OF cs, of "step E c st"] step_keeps_record [OF c, of E st]
  show ?case by simp
qed

text \<open>
  C4 (ledger round trip). Let a Create with the id \<open>uuid\<close> return the serialised record
  \<open>R\<close>. After any later calls of the handlers (Follow, Undo, Create, Delete, the
  registration of a group, in any number and order) in which the Creates draw other
  ids, as \<^verbatim>\<open>uuid4\<close> promises, the retrieval route for \<open>uuid\<close> returns \<open>R\<close> again; \<open>R\<close> has
  the announce URI of \<open>uuid\<close> as id, the type \<^verbatim>\<open>Announce\<close>, the group's actor URI and
  the decoded object.
\<close>

theorem announce_roundtrip:
  assumes created: "create E uuid G a st = (Inr R, st')"
      and others: "uuid \<notin> set (create_ids later)"
  shows "announce_activity E uuid (run E later st') = Inr R
         \<and> (\<exists>obj. R = PDict [(''id'', PStr (announce_url E uuid)),
                              (''type'', PStr ''Announce''),
                              (''actor'', PStr (actor_url E (g_id G))),
                              (''object'', obj)])"
  using announce_lookup_kept [OF created run_keeps_record [OF others]] .

text \<open>The lookup of alice's announce after dave joined, bob created and carol left.\<close>

theorem announce_roundtrip_witness:
  "create example_env ''a1'' book_club (create_by alice (PStr ''https://peer/objects/42''))
     club_world = (Inr created_42, announced_world)
   \<and> ''a1'' \<notin> set (create_ids later_calls)
   \<and> announce_activity example_env ''a1'' (run example_env later_calls announced_world)
       = Inr created_42"
proof -
  have o: "''a1'' \<notin> set (create_ids later_calls)"
    by (simp add: later_calls_def)
  from announce_roundtrip [OF create_by_alice o] create_by_alice o show ?thesis by blast
qed

text \<open>
  C8 (append to the ledger), as the handler has it. A Create that passes its checks
  appends by an unconditional save: whether or not the ledger already holds a record
  under the id, the append does not fail; afterwards the ledger holds under that id
  exactly one record, the new one, the records under other ids are the ones before, and
  the value returned is the serialised new record.
\<close>

theorem create_append_replaces:
  assumes "activity_object_id a = Inr oid"
      and "dict_get a ''actor'' = PStr A"
      and "A \<in> set (group_members st (g_id G))"
  shows "fst (create E u G a st)
           = serialize_announce E \<lparr>ga_id = u, ga_type = ''Announce'', ga_group_id = g_id G,
                                    ga_object = json_dumps E oid\<rparr>
         \<and> filter (\<lambda>r. ga_id r = u) (activity_tbl (snd (create E u G a st)))
           = [\<lparr>ga_id = u, ga_type = ''Announce'', ga_group_id = g_id G,
                ga_object = json_dumps E oid\<rparr>]
         \<and> filter (\<lambda>r. ga_id r \<noteq> u) (activity_tbl (snd (create E u G a st)))
           = filter (\<lambda>r. ga_id r \<noteq> u) (activity_tbl st)"
proof -
  let ?row = "\<lparr>ga_id = u, ga_type = ''Announce'', ga_group_id = g_id G,
                ga_object = json_dumps E oid\<rparr>"
  let ?st1 = "announce_object G (set (group_members st (g_id G)) - {A}) oid
                (PTuple [PStr (announce_url E u)]) st"
  have c: "create E u G a st = (serialize_announce E ?row, save_activity ?row ?st1)"
    by (rule create_member [OF assms])
  from lookup_saved [of ?row ?st1] others_kept [of ?row ?st1] show ?thesis
    by (simp add: c)
qed

theorem create_append_replaces_witness:
  "activity_object_id (create_by alice (PStr ''https://peer/objects/42''))
     = Inr (PStr ''https://peer/objects/42'')
   \<and> dict_get (create_by alice (PStr ''https://peer/objects/42'')) ''actor'' = PStr alice
   \<and> alice \<in> set (group_members ledger_world (g_id book_club))
   \<and> filter (\<lambda>r. ga_id r = ''a1'') (activity_tbl ledger_world) = [stored_announce]
   \<and> filter (\<lambda>r. ga_id r = ''a1'')
        (activity_tbl (snd (create example_env ''a1'' book_club
           (create_by alice (PStr ''https://peer/objects/42'')) ledger_world)))
       = [\<lparr>ga_id = ''a1'', ga_type = ''Announce'', ga_group_id = ''book-club'',
            ga_object = CHR 0x22 # ''https://peer/objects/42'' @ [CHR 0x22]\<rparr>]"
proof -
  have m: "alice \<in> set (group_members ledger_world (g_id book_club))"
    by (simp add: ledger_members)
  have s: "filter (\<lambda>r. ga_id r = ''a1'') (activity_tbl ledger_world) = [stored_announce]"
    by (simp add: ledger_world_def stored_announce_def)
  from create_append_replaces [OF obj_id_str create_by_actor m, of example_env "''a1''"]
    obj_id_str [of alice "''https://peer/objects/42''"]
    create_by_actor [of alice "PStr ''https://peer/objects/42''"] m s
  show ?thesis by (simp add: example_env_def book_club_def)
qed

text \<open>
  The claim as stated fails where the id is taken: the ledger holds a record under
  \<^verbatim>\<open>a1\<close>, alice's Create draws \<^verbatim>\<open>a1\<close> again, and the Create succeeds; the ledger then
  holds the new record under \<^verbatim>\<open>a1\<close> and the earlier one is gone.
\<close>

theorem create_duplicate_id_counterexample:
  "activity_tbl ledger_world = [stored_announce]
   \<and> ga_id stored_announce = ''a1''
   \<and> fst (create example_env ''a1'' book_club
        (create_by alice (PStr ''https://peer/objects/42'')) ledger_world) = Inr created_42
   \<and> activity_tbl (snd (create example_env ''a1'' book_club
        (create_by alice (PStr ''https://peer/objects/42'')) ledger_world))
       = [\<lparr>ga_id = ''a1'', ga_type = ''Announce'', ga_group_id = ''book-club'',
            ga_object = CHR 0x22 # ''https://peer/objects/42'' @ [CHR 0x22]\<rparr>]
   \<and> stored_announce
       \<noteq> \<lparr>ga_id = ''a1'', ga_type = ''Announce'', ga_group_id = ''book-club'',
            ga_object = CHR 0x22 # ''https://peer/objects/42'' @ [CHR 0x22]\<rparr>"
proof -
  have m: "alice \<in> set (group_members ledger_world (g_id book_club))"
    by (simp add: ledger_members)
  show ?thesis
    unfolding create_member [OF obj_id_str create_by_actor m]
    by (simp add: serialize_announce_def example_env_def save_activity_def announce_object_def
        ledger_world_def stored_announce_def book_club_def created_42_def)
qed

subsection \<open>Group creation\<close>

text \<open>
  C9 (validation in \<^verbatim>\<open>make_group\<close>). Let the request carry a string \<^verbatim>\<open>group_name\<close>
  \<open>gid\<close>, and let \<open>nm\<close> and \<open>sm\<close> be the strings it gives as name (by default \<open>gid\<close>) and
  summary (by default empty). When \<open>gid\<close> is longer than 128, \<open>nm\<close> longer than 256 or
  \<open>sm\<close> longer than 2560 characters, or \<open>gid\<close> is already registered, the call fails and
  the state is unchanged, so no group is stored; otherwise it reports success and stores
  the group, which \<^verbatim>\<open>find_group\<close> then returns.
\<close>

theorem make_group_validation:
  assumes gname: "map_of d ''group_name'' = Some (PStr gid)"
      and name: "dict_get_default d ''name'' (PStr gid) = PStr nm"
      and summary: "dict_get_default d ''summary'' (PStr []) = PStr sm"
  shows "make_group (Some d) st =
           (if 128 < length gid then (Inl (Abort 400 ''group_name too long''), st)
            else if 256 < length nm then (Inl (Abort 400 ''group_name too long''), st)
            else if 2560 < length sm then (Inl (Abort 400 ''summary too long''), st)
            else if find_group st gid \<noteq> None then (Inl (Abort 403 []), st)
            else (Inr (PDict [(''ok'', PBool True)]),
                  save_group \<lparr>g_id = gid, g_name = nm, g_summary = sm\<rparr> st))
         \<and> find_group (save_group \<lparr>g_id = gid, g_name = nm, g_summary = sm\<rparr> st) gid
           = Some \<lparr>g_id = gid, g_name = nm, g_summary = sm\<rparr>"
proof -
  from gname have d: "d \<noteq> []" by auto
  from gname have g: "dict_get d ''group_name'' = PStr gid"
    by (simp add: dict_get_def dict_get_default_def)
  from find_saved_group [of "\<lparr>g_id = gid, g_name = nm, g_summary = sm\<rparr>" st]
  have "find_group (save_group \<lparr>g_id = gid, g_name = nm, g_summary = sm\<rparr> st) gid
           = Some \<lparr>g_id = gid, g_name = nm, g_summary = sm\<rparr>" by simp
  with d gname g name summary show ?thesis
    by (simp add: make_group_def py_len_def)
qed

text \<open>Registering \<^verbatim>\<open>book-club\<close> in the empty store succeeds; registering it again fails.\<close>

theorem make_group_validation_witness:
  "map_of (group_request ''book-club'') ''group_name'' = Some (PStr ''book-club'')
   \<and> dict_get_default (group_request ''book-club'') ''name'' (PStr ''book-club'')
       = PStr ''book-club''
   \<and> dict_get_default (group_request ''book-club'') ''summary'' (PStr []) = PStr ''reads books''
   \<and> make_group (Some (group_request ''book-club'')) empty_world
       = (Inr (PDict [(''ok'', PBool True)]),
          save_group \<lparr>g_id = ''book-club'', g_name = ''book-club'',
                      g_summary = ''reads books''\<rparr> empty_world)
   \<and> make_group (Some (group_request ''book-club'')) club_world
       = (Inl (Abort 403 []), club_world)"
proof -
  have 1: "map_of (group_request ''book-club'') ''group_name'' = Some (PStr ''book-club'')"
    by (simp add: group_request_def)
  have 2: "dict_get_default (group_request ''book-club'') ''name'' (PStr ''book-club'')
       = PStr ''book-club''"
    by (simp add: group_request_def dict_get_default_def)
  have 3: "dict_get_default (group_request ''book-club'') ''summary'' (PStr [])
       = PStr ''reads books''"
    by (simp add: group_request_def dict_get_default_def)
  have e: "find_group empty_world ''book-club'' = None"
    by (simp add: find_group_def empty_world_def)
  have c: "find_group club_world ''book-club'' \<noteq> None"
    by (simp add: find_group_def club_world_def empty_world_def book_club_def)
  from make_group_validation [OF 1 2 3, of empty_world]
    make_group_validation [OF 1 2 3, of club_world] 1 2 3 e c
  show ?thesis by simp
qed

subsection \<open>Delete\<close>

text \<open>
  C10 (the Delete handler changes no state). For every group, activity and state,
  \<^verbatim>\<open>delete\<close> returns no value (\<^verbatim>\<open>None\<close>) and leaves the group table, the membership
  table, the ledger and the record of outbound calls as they were; all it does is print.
\<close>

theorem delete_no_state_change:
  "fst (delete G a st) = Inr PNone
   \<and> group_tbl (snd (delete G a st)) = group_tbl st
   \<and> member_tbl (snd (delete G a st)) = member_tbl st
   \<and> activity_tbl (snd (delete G a st)) = activity_tbl st
   \<and> accepts (snd (delete G a st)) = accepts st
   \<and> announces (snd (delete G a st)) = announces st"
  by (simp add: delete_def)

end
